theory Spec2Isabelle
  imports Main "HOL-Library.Word"
begin

unbundle bit_operations_syntax

section \<open>OpenThread radio platform layer: \<^verbatim>\<open>platform_radio.c\<close>\<close>

subsection \<open>Enumerations used by the file\<close>

text \<open>
  The enumerations are declared in headers of RIOT and OpenThread; the constructors below are
  the enumerators that \<^verbatim>\<open>platform_radio.c\<close> names.
\<close>

datatype ThreadError =
    kThreadError_None
  | kThreadError_Busy
  | kThreadError_Abort
  | kThreadError_NoAck
  | kThreadError_ChannelAccessFailure

datatype netopt =
    NETOPT_CHANNEL
  | NETOPT_TX_POWER
  | NETOPT_NID
  | NETOPT_ADDRESS_LONG
  | NETOPT_ADDRESS
  | NETOPT_PROMISCUOUSMODE
  | NETOPT_STATE

datatype netopt_state =
    NETOPT_STATE_OFF
  | NETOPT_STATE_SLEEP
  | NETOPT_STATE_IDLE
  | NETOPT_STATE_RX
  | NETOPT_STATE_TX

datatype netopt_enable = NETOPT_DISABLE | NETOPT_ENABLE

text \<open>
  The driver events: the four transmit completions that \<^verbatim>\<open>sent_pkt\<close> switches on,
  the receive completion handled by \<^verbatim>\<open>recv_pkt\<close>, and the remaining event kinds of
  the driver interface, which reach the \<^verbatim>\<open>default\<close> branch.
\<close>

datatype netdev2_event =
    NETDEV2_EVENT_ISR
  | NETDEV2_EVENT_RX_STARTED
  | NETDEV2_EVENT_RX_COMPLETE
  | NETDEV2_EVENT_TX_STARTED
  | NETDEV2_EVENT_TX_COMPLETE
  | NETDEV2_EVENT_TX_COMPLETE_DATA_PENDING
  | NETDEV2_EVENT_TX_NOACK
  | NETDEV2_EVENT_TX_MEDIUM_BUSY
  | NETDEV2_EVENT_LINK_UP
  | NETDEV2_EVENT_LINK_DOWN

subsection \<open>The device behind \<^verbatim>\<open>_dev->driver\<close>\<close>

text \<open>
  The driver is reached through the function pointers \<^verbatim>\<open>get\<close>, \<open>set\<close>,
  \<open>send\<close> and \<open>recv\<close> of \<^verbatim>\<open>_dev->driver\<close>; its implementation is not part of
  this file. It is modelled as a device that keeps one value per option: a successful
  \<open>set\<close> stores the value it is handed and \<open>get\<close> hands the stored value back.
  The device also records, in call order, every \<open>set\<close>, \<open>send\<close> and \<open>recv\<close> made on
  it, and the \<^verbatim>\<open>int\<close> results of its operations are fields of the device, so that they
  range over every value a driver may return. An \<^verbatim>\<open>int\<close> is a 32-bit word, read as a
  signed value by \<open>sint\<close>.

  A value handed to \<open>set\<close> is tagged with the C type of the buffer it is read from.
\<close>

datatype netopt_val =
    Val_u16 "16 word"
  | Val_i16 "16 word"
  | Val_bytes "8 word list"
  | Val_enable netopt_enable
  | Val_state netopt_state

record iovec =
  iov_base :: "8 word list"
  iov_len :: nat

datatype drv_call =
    Drv_set netopt netopt_val
  | Drv_send "iovec list"
  | Drv_recv bool "32 word"

text \<open>
  \<open>Drv_recv has_buf len\<close> is a call \<^verbatim>\<open>recv(dev, buf, len, NULL)\<close>; \<open>has_buf\<close> is
  false when \<^verbatim>\<open>buf\<close> is \<^verbatim>\<open>NULL\<close> (the query of the frame length).
\<close>

record netdev2 =
  nd_channel :: "16 word"
  nd_tx_power :: "16 word"
  nd_nid :: "16 word"
  nd_address_long :: "8 word list"
  nd_address :: "16 word"
  nd_promiscuous :: netopt_enable
  nd_state :: netopt_state
  nd_calls :: "drv_call list"
  nd_set_res :: "netopt \<Rightarrow> 32 word"
  nd_send_res :: "32 word"
  nd_recv_len :: "32 word"
  nd_recv_res :: "32 word"
  nd_recv_data :: "8 word list"

fun store_opt :: "netopt \<Rightarrow> netopt_val \<Rightarrow> netdev2 \<Rightarrow> netdev2" where
  "store_opt NETOPT_CHANNEL (Val_u16 v) d = d\<lparr>nd_channel := v\<rparr>"
| "store_opt NETOPT_TX_POWER (Val_i16 v) d = d\<lparr>nd_tx_power := v\<rparr>"
| "store_opt NETOPT_NID (Val_u16 v) d = d\<lparr>nd_nid := v\<rparr>"
| "store_opt NETOPT_ADDRESS_LONG (Val_bytes v) d = d\<lparr>nd_address_long := v\<rparr>"
| "store_opt NETOPT_ADDRESS (Val_u16 v) d = d\<lparr>nd_address := v\<rparr>"
| "store_opt NETOPT_PROMISCUOUSMODE (Val_enable v) d = d\<lparr>nd_promiscuous := v\<rparr>"
| "store_opt NETOPT_STATE (Val_state v) d = d\<lparr>nd_state := v\<rparr>"
| "store_opt _ _ d = d"

text \<open>
  \<^verbatim>\<open>driver->set(dev, opt, &value, size)\<close>: the call is recorded; the value is stored when
  the driver's result is not negative (an error code). The result is handed back.
\<close>

definition driver_set :: "netopt \<Rightarrow> netopt_val \<Rightarrow> netdev2 \<Rightarrow> 32 word \<times> netdev2" where
  "driver_set opt v d =
     (let r = nd_set_res d opt;
          d1 = d\<lparr>nd_calls := nd_calls d @ [Drv_set opt v]\<rparr>
      in (r, if 0 \<le> sint r then store_opt opt v d1 else d1))"

text \<open>\<^verbatim>\<open>driver->send(dev, vector, count)\<close>: the call is recorded, with the vector.\<close>

definition driver_send :: "iovec list \<Rightarrow> netdev2 \<Rightarrow> 32 word \<times> netdev2" where
  "driver_send vec d = (nd_send_res d, d\<lparr>nd_calls := nd_calls d @ [Drv_send vec]\<rparr>)"

text \<open>
  \<^verbatim>\<open>driver->recv(dev, buf, len, NULL)\<close>. With \<^verbatim>\<open>buf = NULL\<close> the driver answers
  the length of the frame it holds and writes nothing. With a buffer, \<open>len\<close> (a
  \<^verbatim>\<open>size_t\<close>) is the capacity the caller states for it: the driver copies the first
  \<open>len\<close> bytes of the frame, or the whole frame if it is shorter, to the front of the buffer
  and answers its result for the read. The buffer has the fixed size it was allocated with.
  When the bytes to copy are more than the buffer holds, the copy runs past its end: that is
  the fault \<open>Buffer_overrun\<close>, after which nothing is known of the state.
\<close>

datatype fault = Buffer_overrun

definition driver_recv ::
  "8 word list option \<Rightarrow> 32 word \<Rightarrow> netdev2 \<Rightarrow>
     fault + (32 word \<times> 8 word list option \<times> netdev2)"
  where
  "driver_recv buf len d =
     (case buf of
        None \<Rightarrow> Inr (nd_recv_len d, None, d\<lparr>nd_calls := nd_calls d @ [Drv_recv False len]\<rparr>)
      | Some b \<Rightarrow>
          (let got = take (unat len) (nd_recv_data d)
           in if length b < length got then Inl Buffer_overrun
              else Inr (nd_recv_res d, Some (got @ drop (length got) b),
                        d\<lparr>nd_calls := nd_calls d @ [Drv_recv True len]\<rparr>)))"

subsection \<open>Frames, upcalls and the file's global state\<close>

text \<open>
  \<^verbatim>\<open>RadioPacket\<close> is declared in OpenThread's \<^verbatim>\<open>platform/radio.h\<close>:
  \<^verbatim>\<open>uint8_t *mPsdu; uint8_t mLength; uint8_t mChannel; int8_t mPower;\<close>.
  \<open>mPsdu\<close> holds the content of the buffer the pointer refers to.
\<close>

record RadioPacket =
  mPsdu :: "8 word list"
  mLength :: "8 word"
  mChannel :: "8 word"
  mPower :: "8 word"

text \<open>The two frames the file owns; an upcall receives the address of one, or \<^verbatim>\<open>NULL\<close>.\<close>

datatype frame_ref = Ref_sTransmitFrame | Ref_sReceiveFrame

datatype upcall =
    otPlatRadioReceiveDone "frame_ref option" ThreadError
  | otPlatRadioTransmitDone "frame_ref option" bool ThreadError

text \<open>
  The globals \<^verbatim>\<open>_dev\<close>, \<^verbatim>\<open>sTransmitFrame\<close> and \<^verbatim>\<open>sReceiveFrame\<close>, and the
  calls made into OpenThread so far, oldest first.
\<close>

record ot_radio =
  dev :: netdev2
  sTransmitFrame :: RadioPacket
  sReceiveFrame :: RadioPacket
  upcalls :: "upcall list"

text \<open>
  A function that can stop at \<^verbatim>\<open>assert\<close> either returns its value or fails the
  assertion.
\<close>

datatype 'a outcome = Returned 'a | Assertion_failed

subsection \<open>Accessors of the driver's options\<close>

definition set_channel :: "16 word \<Rightarrow> ot_radio \<Rightarrow> 32 word \<times> ot_radio" where
  "set_channel channel s =
     (let (r, d) = driver_set NETOPT_CHANNEL (Val_u16 channel) (dev s) in (r, s\<lparr>dev := d\<rparr>))"

definition get_power :: "ot_radio \<Rightarrow> 16 word" where
  "get_power s = nd_tx_power (dev s)"

definition set_power :: "16 word \<Rightarrow> ot_radio \<Rightarrow> 32 word \<times> ot_radio" where
  "set_power pwr s =
     (let (r, d) = driver_set NETOPT_TX_POWER (Val_i16 pwr) (dev s) in (r, s\<lparr>dev := d\<rparr>))"

definition set_panid :: "16 word \<Rightarrow> ot_radio \<Rightarrow> 32 word \<times> ot_radio" where
  "set_panid panid s =
     (let (r, d) = driver_set NETOPT_NID (Val_u16 panid) (dev s) in (r, s\<lparr>dev := d\<rparr>))"

definition IEEE802154_LONG_ADDRESS_LEN :: nat where
  "IEEE802154_LONG_ADDRESS_LEN = 8"

text \<open>
  \<^verbatim>\<open>get_long_addr\<close> and \<^verbatim>\<open>set_long_addr\<close> pass the caller's buffer with the size
  \<^verbatim>\<open>sizeof(uint64_t)\<close>: eight bytes are written to it, or read from it.
\<close>

definition get_long_addr :: "ot_radio \<Rightarrow> 8 word list" where
  "get_long_addr s = take 8 (nd_address_long (dev s))"

definition set_long_addr :: "8 word list \<Rightarrow> ot_radio \<Rightarrow> 32 word \<times> ot_radio" where
  "set_long_addr ext_addr s =
     (let (r, d) = driver_set NETOPT_ADDRESS_LONG (Val_bytes (take 8 ext_addr)) (dev s)
      in (r, s\<lparr>dev := d\<rparr>))"

definition set_addr :: "16 word \<Rightarrow> ot_radio \<Rightarrow> 32 word \<times> ot_radio" where
  "set_addr addr s =
     (let (r, d) = driver_set NETOPT_ADDRESS (Val_u16 addr) (dev s) in (r, s\<lparr>dev := d\<rparr>))"

definition get_state :: "ot_radio \<Rightarrow> netopt_state" where
  "get_state s = nd_state (dev s)"

definition set_state :: "netopt_state \<Rightarrow> ot_radio \<Rightarrow> ot_radio" where
  "set_state state s = s\<lparr>dev := snd (driver_set NETOPT_STATE (Val_state state) (dev s))\<rparr>"

definition is_busy :: "ot_radio \<Rightarrow> bool" where
  "is_busy s = (get_state s = NETOPT_STATE_TX \<or> get_state s = NETOPT_STATE_RX)"

text \<open>
  Modelled from the spec: \<^verbatim>\<open>is_rx\<close> and \<^verbatim>\<open>is_tx\<close> are called by
  \<^verbatim>\<open>otPlatRadioTransmit\<close> and defined nowhere in the file. The spec's precondition of
  Transmit is that the device is "not currently receiving or transmitting", which are the
  device states \<open>NETOPT_STATE_RX\<close> and \<open>NETOPT_STATE_TX\<close> that \<^verbatim>\<open>is_busy\<close> tests.
\<close>

definition is_rx :: "ot_radio \<Rightarrow> bool" where
  "is_rx s = (get_state s = NETOPT_STATE_RX)"

definition is_tx :: "ot_radio \<Rightarrow> bool" where
  "is_tx s = (get_state s = NETOPT_STATE_TX)"

text \<open>
  \<^verbatim>\<open>openthread_radio_init\<close>: the frames get their buffers and the length 0; their other
  fields are those of zero-initialised statics. No upcall has been made.
\<close>

definition openthread_radio_init :: "netdev2 \<Rightarrow> 8 word list \<Rightarrow> 8 word list \<Rightarrow> ot_radio" where
  "openthread_radio_init d tb rb =
     \<lparr>dev = d,
      sTransmitFrame = \<lparr>mPsdu = tb, mLength = 0, mChannel = 0, mPower = 0\<rparr>,
      sReceiveFrame = \<lparr>mPsdu = rb, mLength = 0, mChannel = 0, mPower = 0\<rparr>,
      upcalls = []\<rparr>"

subsection \<open>Driver events\<close>

text \<open>
  \<^verbatim>\<open>recv_pkt\<close>. \<open>len\<close> is an \<^verbatim>\<open>int\<close>; in \<^verbatim>\<open>len > (unsigned) UINT16_MAX\<close> it is
  converted to \<^verbatim>\<open>unsigned\<close>, so the comparison is the unsigned one of 32-bit words and
  a negative \<open>len\<close> compares as a large value. The stores to \<open>mLength\<close> and \<open>mPower\<close>
  convert to the eight bits of the fields.
\<close>

definition UINT16_MAX :: "32 word" where
  "UINT16_MAX = 65535"

text \<open>
  The second call hands the driver the buffer \<open>mPsdu\<close> with \<open>len\<close> as its capacity,
  whatever the size of the buffer is; the handler ends with the driver's fault when that
  call overruns the buffer.
\<close>

definition recv_pkt :: "ot_radio \<Rightarrow> fault + ot_radio" where
  "recv_pkt s =
     (case driver_recv None 0 (dev s) of
        Inl f \<Rightarrow> Inl f
      | Inr (len, _, d1) \<Rightarrow>
          (let s1 = s\<lparr>dev := d1\<rparr>
           in if len > UINT16_MAX
              then Inr (s1\<lparr>upcalls := upcalls s1 @
                          [otPlatRadioReceiveDone None kThreadError_Abort]\<rparr>)
              else
                (let s2 = s1\<lparr>sReceiveFrame := (sReceiveFrame s1)\<lparr>mLength := ucast len\<rparr>\<rparr>;
                     s3 = s2\<lparr>sReceiveFrame :=
                               (sReceiveFrame s2)\<lparr>mPower := ucast (get_power s2)\<rparr>\<rparr>
                 in case driver_recv (Some (mPsdu (sReceiveFrame s3))) len (dev s3) of
                      Inl f \<Rightarrow> Inl f
                    | Inr (res, buf, d2) \<Rightarrow>
                        (let s4 = s3\<lparr>dev := d2,
                                     sReceiveFrame := (sReceiveFrame s3)
                                       \<lparr>mPsdu := (case buf of Some b \<Rightarrow> b
                                                   | None \<Rightarrow> mPsdu (sReceiveFrame s3))\<rparr>\<rparr>
                         in Inr (s4\<lparr>upcalls := upcalls s4 @
                              [otPlatRadioReceiveDone
                                 (if sint res > 0 then Some Ref_sReceiveFrame else None)
                                 (if sint res > 0 then kThreadError_None
                                  else kThreadError_Abort)]\<rparr>)))))"

text \<open>\<^verbatim>\<open>sent_pkt\<close>: the \<^verbatim>\<open>switch\<close> over the event, with its \<^verbatim>\<open>default\<close> branch.\<close>

fun sent_pkt :: "netdev2_event \<Rightarrow> ot_radio \<Rightarrow> ot_radio" where
  "sent_pkt NETDEV2_EVENT_TX_COMPLETE s =
     s\<lparr>upcalls := upcalls s @
       [otPlatRadioTransmitDone (Some Ref_sTransmitFrame) False kThreadError_None]\<rparr>"
| "sent_pkt NETDEV2_EVENT_TX_COMPLETE_DATA_PENDING s =
     s\<lparr>upcalls := upcalls s @
       [otPlatRadioTransmitDone (Some Ref_sTransmitFrame) True kThreadError_None]\<rparr>"
| "sent_pkt NETDEV2_EVENT_TX_NOACK s =
     s\<lparr>upcalls := upcalls s @
       [otPlatRadioTransmitDone (Some Ref_sTransmitFrame) False kThreadError_NoAck]\<rparr>"
| "sent_pkt NETDEV2_EVENT_TX_MEDIUM_BUSY s =
     s\<lparr>upcalls := upcalls s @
       [otPlatRadioTransmitDone (Some Ref_sTransmitFrame) False
          kThreadError_ChannelAccessFailure]\<rparr>"
| "sent_pkt _ s = s"

subsection \<open>Addresses and PAN id\<close>

definition otPlatRadioGetIeeeEui64 :: "ot_radio \<Rightarrow> 8 word list" where
  "otPlatRadioGetIeeeEui64 s = get_long_addr s"

text \<open>
  \<^verbatim>\<open>((x & 0xff) << 8) | ((x >> 8) & 0xff)\<close>: the operand is promoted to \<^verbatim>\<open>int\<close>, and the
  \<^verbatim>\<open>int\<close> result is converted to the \<^verbatim>\<open>uint16_t\<close> parameter of the accessor.
\<close>

definition swap_bytes :: "16 word \<Rightarrow> 16 word" where
  "swap_bytes x =
     word_of_int (push_bit 8 (uint x AND 0xff) OR (drop_bit 8 (uint x) AND 0xff))"

definition otPlatRadioSetPanId :: "16 word \<Rightarrow> ot_radio \<Rightarrow> ot_radio" where
  "otPlatRadioSetPanId aPanId s = snd (set_panid (swap_bytes aPanId) s)"

text \<open>
  The loop of \<^verbatim>\<open>otPlatRadioSetExtendedAddress\<close>, from index \<open>i\<close> on.
  \<open>aExtendedAddress\<close> points to the eight bytes of an extended address; the function has
  no length to check, and a list of another length models no call of it.
\<close>

function reverse_from :: "nat \<Rightarrow> 8 word list \<Rightarrow> 8 word list \<Rightarrow> 8 word list" where
  "reverse_from i aExtendedAddress reversed_addr =
     (if i < IEEE802154_LONG_ADDRESS_LEN
      then reverse_from (i + 1) aExtendedAddress
             (reversed_addr[i := aExtendedAddress ! (IEEE802154_LONG_ADDRESS_LEN - 1 - i)])
      else reversed_addr)"
  by pat_completeness auto
termination
  by (relation "measure (\<lambda>(i, _, _). IEEE802154_LONG_ADDRESS_LEN - i)") auto

text \<open>
  The local array \<^verbatim>\<open>reversed_addr\<close> is not initialised; the loop writes each of its
  eight bytes.
\<close>

definition otPlatRadioSetExtendedAddress :: "8 word list \<Rightarrow> ot_radio \<Rightarrow> ot_radio" where
  "otPlatRadioSetExtendedAddress aExtendedAddress s =
     (let reversed_addr =
            reverse_from 0 aExtendedAddress (replicate IEEE802154_LONG_ADDRESS_LEN 0)
      in snd (set_long_addr reversed_addr s))"

definition otPlatRadioSetShortAddress :: "16 word \<Rightarrow> ot_radio \<Rightarrow> ot_radio" where
  "otPlatRadioSetShortAddress aShortAddress s = snd (set_addr (swap_bytes aShortAddress) s)"

subsection \<open>Commands of the radio state machine\<close>

definition otPlatRadioEnable :: "ot_radio \<Rightarrow> ThreadError \<times> ot_radio" where
  "otPlatRadioEnable s =
     (if is_busy s then (kThreadError_None, s)
      else (kThreadError_None, set_state NETOPT_STATE_SLEEP s))"

definition otPlatRadioDisable :: "ot_radio \<Rightarrow> ThreadError \<times> ot_radio" where
  "otPlatRadioDisable s =
     (if is_busy s then (kThreadError_Busy, s)
      else (kThreadError_None, set_state NETOPT_STATE_OFF s))"

definition otPlatRadioIsEnabled :: "ot_radio \<Rightarrow> bool" where
  "otPlatRadioIsEnabled s = (get_state s \<noteq> NETOPT_STATE_OFF)"

definition otPlatRadioSleep :: "ot_radio \<Rightarrow> ThreadError \<times> ot_radio" where
  "otPlatRadioSleep s =
     (if is_busy s then (kThreadError_Busy, s)
      else otPlatRadioDisable (set_state NETOPT_STATE_SLEEP s))"

definition otPlatRadioReceive :: "8 word \<Rightarrow> ot_radio \<Rightarrow> ThreadError \<times> ot_radio" where
  "otPlatRadioReceive aChannel s =
     (if is_busy s then (kThreadError_Busy, s)
      else
        (let s1 = snd (set_channel (ucast aChannel) s);
             s2 = s1\<lparr>sReceiveFrame := (sReceiveFrame s1)\<lparr>mChannel := aChannel\<rparr>\<rparr>
         in (kThreadError_None, set_state NETOPT_STATE_IDLE s2)))"

text \<open>
  \<^verbatim>\<open>otPlatRadioTransmit\<close>. \<open>ndebug\<close> says whether the file is compiled with
  \<^verbatim>\<open>NDEBUG\<close>: then \<^verbatim>\<open>assert(false)\<close> is empty and the \<^verbatim>\<open>return\<close> after it is
  reached; otherwise the assertion fails and the function does not return. The
  \<^verbatim>\<open>uint8_t\<close> channel and the \<^verbatim>\<open>int8_t\<close> power of the frame are converted to the
  \<^verbatim>\<open>uint16_t\<close> and \<^verbatim>\<open>int16_t\<close> parameters of the accessors. The results of
  \<^verbatim>\<open>set_channel\<close>, \<^verbatim>\<open>set_power\<close> and \<^verbatim>\<open>send\<close> are not read, and neither
  is the argument \<^verbatim>\<open>aPacket\<close>: the function sends \<^verbatim>\<open>sTransmitFrame\<close>.
\<close>

definition otPlatRadioTransmit :: "bool \<Rightarrow> ot_radio \<Rightarrow> ThreadError outcome \<times> ot_radio" where
  "otPlatRadioTransmit ndebug s =
     (if is_rx s \<or> is_tx s
      then (if ndebug then (Returned kThreadError_Busy, s) else (Assertion_failed, s))
      else
        (let pkt = \<lparr>iov_base = mPsdu (sTransmitFrame s),
                    iov_len = unat (mLength (sTransmitFrame s))\<rparr>;
             s1 = snd (set_channel (ucast (mChannel (sTransmitFrame s))) s);
             s2 = snd (set_power (scast (mPower (sTransmitFrame s1))) s1);
             (_, d) = driver_send [pkt] (dev s2)
         in (Returned kThreadError_None, s2\<lparr>dev := d\<rparr>)))"

section \<open>Millisecond alarm: \<^verbatim>\<open>platform_alarm.c\<close>\<close>

text \<open>
  \<^verbatim>\<open>msg_t\<close> carries a 16-bit \<^verbatim>\<open>type\<close>; the alarm sets no other field.
  \<^verbatim>\<open>OPENTHREAD_XTIMER_MSG_TYPE_EVENT\<close> and \<^verbatim>\<open>US_PER_MS\<close> are macros of
  \<^verbatim>\<open>ot.h\<close> and \<^verbatim>\<open>timex.h\<close>.
\<close>

record msg =
  msg_type :: "16 word"

definition OPENTHREAD_XTIMER_MSG_TYPE_EVENT :: "16 word" where
  "OPENTHREAD_XTIMER_MSG_TYPE_EVENT = 0x2235"

definition US_PER_MS :: "32 word" where
  "US_PER_MS = 1000"

text \<open>
  The statics \<^verbatim>\<open>ot_timer\<close> and \<^verbatim>\<open>ot_alarm_msg\<close>, the clock of the timer facility in
  microseconds, and the messages delivered to the thread \<^verbatim>\<open>_pid\<close>, oldest first.
  \<open>ot_timer\<close> is \<open>Some t\<close> while the timer is armed to fire at the time \<open>t\<close>.
\<close>

record ot_alarm =
  now_usec :: nat
  ot_timer :: "nat option"
  ot_alarm_msg :: msg
  mbox :: "msg list"

text \<open>
  Modelled from the spec: \<^verbatim>\<open>msg_send\<close>, \<^verbatim>\<open>xtimer_set_msg\<close>, \<^verbatim>\<open>xtimer_remove\<close> and
  the expiry of a timer belong to the kernel and its timer facility, which the spec describes as
  "schedule a callback after N time units / fire now / cancel" and "invoke callback after
  duration scheduling with cancellation". \<open>msg_send\<close> enqueues the message for the thread;
  \<open>xtimer_set_msg\<close> arms the one timer object to send the message \<open>offset\<close> microseconds
  from now, in place of whatever it was armed for; \<open>xtimer_remove\<close> disarms it;
  \<open>xtimer_elapse\<close> lets \<open>t\<close> microseconds pass, and a timer that is due sends its message
  and is disarmed.
\<close>

definition msg_send :: "ot_alarm \<Rightarrow> ot_alarm" where
  "msg_send s = s\<lparr>mbox := mbox s @ [ot_alarm_msg s]\<rparr>"

definition xtimer_set_msg :: "32 word \<Rightarrow> ot_alarm \<Rightarrow> ot_alarm" where
  "xtimer_set_msg offset s = s\<lparr>ot_timer := Some (now_usec s + unat offset)\<rparr>"

definition xtimer_remove :: "ot_alarm \<Rightarrow> ot_alarm" where
  "xtimer_remove s = s\<lparr>ot_timer := None\<rparr>"

definition xtimer_elapse :: "nat \<Rightarrow> ot_alarm \<Rightarrow> ot_alarm" where
  "xtimer_elapse t s =
     (let s1 = s\<lparr>now_usec := now_usec s + t\<rparr>
      in case ot_timer s1 of
           None \<Rightarrow> s1
         | Some due \<Rightarrow>
             if due \<le> now_usec s1 then msg_send (s1\<lparr>ot_timer := None\<rparr>) else s1)"

text \<open>
  \<^verbatim>\<open>otPlatAlarmMilliStartAt\<close>. \<^verbatim>\<open>aDt * US_PER_MS\<close> is a product of 32-bit unsigned
  values; \<^verbatim>\<open>int dt\<close> holds its 32 bits, which are the \<^verbatim>\<open>uint32_t\<close> offset that
  \<^verbatim>\<open>xtimer_set_msg\<close> receives. \<open>aT0\<close> is not read.
\<close>

definition otPlatAlarmMilliStartAt :: "32 word \<Rightarrow> 32 word \<Rightarrow> ot_alarm \<Rightarrow> ot_alarm" where
  "otPlatAlarmMilliStartAt aT0 aDt s =
     (let s1 = s\<lparr>ot_alarm_msg := (ot_alarm_msg s)\<lparr>msg_type := OPENTHREAD_XTIMER_MSG_TYPE_EVENT\<rparr>\<rparr>
      in if aDt = 0 then msg_send s1
         else (let dt = aDt * US_PER_MS in xtimer_set_msg dt s1))"

definition otPlatAlarmMilliStop :: "ot_alarm \<Rightarrow> ot_alarm" where
  "otPlatAlarmMilliStop s = xtimer_remove s"

definition otPlatAlarmMilliGetNow :: "ot_alarm \<Rightarrow> 32 word" where
  "otPlatAlarmMilliGetNow s = word_of_nat (now_usec s) div US_PER_MS"

section \<open>States used to run the definitions\<close>

text \<open>
  A device in the state \<open>st\<close> on which no call has been made yet: every \<open>set\<close> answers
  the size it wrote, \<open>send\<close> answers \<open>send_res\<close>, and a frame of five bytes is waiting.
\<close>

definition test_dev :: "netopt_state \<Rightarrow> 32 word \<Rightarrow> netdev2" where
  "test_dev st send_res =
     \<lparr>nd_channel = 26, nd_tx_power = 0, nd_nid = 0,
      nd_address_long = [0, 0, 0, 0, 0, 0, 0, 0], nd_address = 0,
      nd_promiscuous = NETOPT_DISABLE, nd_state = st, nd_calls = [],
      nd_set_res = (\<lambda>_. 2), nd_send_res = send_res,
      nd_recv_len = 5, nd_recv_res = 5, nd_recv_data = [1, 2, 3, 4, 5]\<rparr>"

definition test_radio :: "netopt_state \<Rightarrow> 32 word \<Rightarrow> ot_radio" where
  "test_radio st send_res =
     openthread_radio_init (test_dev st send_res) [0, 0, 0, 0, 0, 0, 0, 0] [0, 0, 0, 0, 0, 0, 0, 0]"


text \<open>
  \<open>xtimer_elapse_all\<close> lets time pass in the steps \<open>ts\<close>, one after the other.
\<close>

fun xtimer_elapse_all :: "nat list \<Rightarrow> ot_alarm \<Rightarrow> ot_alarm" where
  "xtimer_elapse_all [] s = s"
| "xtimer_elapse_all (t # ts) s = xtimer_elapse_all ts (xtimer_elapse t s)"

text \<open>An alarm at the clock value \<open>now\<close> with no timer armed and no message delivered.\<close>

definition test_alarm :: "nat \<Rightarrow> ot_alarm" where
  "test_alarm now =
     \<lparr>now_usec = now, ot_timer = None, ot_alarm_msg = \<lparr>msg_type = 0\<rparr>, mbox = []\<rparr>"

section \<open>Properties of the radio commands\<close>

lemmas test_defs = test_radio_def test_dev_def openthread_radio_init_def

subsection \<open>What \<open>set_state\<close> does to the device\<close>

lemma get_state_set_state:
  "0 \<le> sint (nd_set_res (dev s) NETOPT_STATE) \<Longrightarrow> get_state (set_state st s) = st"
  by (simp add: get_state_def set_state_def driver_set_def Let_def)

lemma get_state_set_state_rejected:
  "sint (nd_set_res (dev s) NETOPT_STATE) < 0 \<Longrightarrow> get_state (set_state st s) = get_state s"
  by (simp add: get_state_def set_state_def driver_set_def Let_def)

lemma nd_calls_set_state:
  "nd_calls (dev (set_state st s)) = nd_calls (dev s) @ [Drv_set NETOPT_STATE (Val_state st)]"
  by (simp add: set_state_def driver_set_def Let_def)

lemma nd_set_res_set_state: "nd_set_res (dev (set_state st s)) = nd_set_res (dev s)"
  by (simp add: set_state_def driver_set_def Let_def)

lemma get_state_test_radio: "get_state (test_radio st r) = st"
  by (simp add: get_state_def test_defs)

subsection \<open>Transmit\<close>

text \<open>
  C1. Whatever the device state and the frames hold, a Transmit command issued while the
  device is transmitting or receiving is rejected: where assertions are compiled in, the
  function stops at its \<^verbatim>\<open>assert(false)\<close>; where they are compiled out, it returns
  \<open>kThreadError_Busy\<close>. In both cases the whole state is left as it was, so the outbound
  frame is not altered and the device has seen no \<open>set\<close> of channel or power and no
  \<open>send\<close> (its record of calls is unchanged).
\<close>

theorem transmit_while_busy:
  "get_state s = NETOPT_STATE_TX \<or> get_state s = NETOPT_STATE_RX \<Longrightarrow>
   otPlatRadioTransmit ndebug s =
     (if ndebug then Returned kThreadError_Busy else Assertion_failed, s)"
  by (auto simp: otPlatRadioTransmit_def is_rx_def is_tx_def)

theorem transmit_while_busy_witness:
  "(get_state (test_radio NETOPT_STATE_TX 0) = NETOPT_STATE_TX \<or>
    get_state (test_radio NETOPT_STATE_TX 0) = NETOPT_STATE_RX) \<and>
   otPlatRadioTransmit False (test_radio NETOPT_STATE_TX 0) =
     (Assertion_failed, test_radio NETOPT_STATE_TX 0) \<and>
   otPlatRadioTransmit True (test_radio NETOPT_STATE_TX 0) =
     (Returned kThreadError_Busy, test_radio NETOPT_STATE_TX 0)"
proof -
  have h: "get_state (test_radio NETOPT_STATE_TX 0) = NETOPT_STATE_TX \<or>
    get_state (test_radio NETOPT_STATE_TX 0) = NETOPT_STATE_RX"
    by (simp add: get_state_test_radio)
  show ?thesis
    using h transmit_while_busy [OF h, of False] transmit_while_busy [OF h, of True] by simp
qed

text \<open>
  C10. When the device is neither receiving nor transmitting, Transmit returns
  \<open>kThreadError_None\<close> whatever results the driver gives for the two \<open>set\<close> calls and
  for \<open>send\<close>: the device is handed the channel, the power and the frame, in this order,
  and none of the three results reaches the caller.
\<close>

theorem transmit_returns_none:
  "get_state s \<noteq> NETOPT_STATE_RX \<Longrightarrow> get_state s \<noteq> NETOPT_STATE_TX \<Longrightarrow>
   s' = s\<lparr>dev := (dev s)\<lparr>nd_set_res := set_res, nd_send_res := send_res\<rparr>\<rparr> \<Longrightarrow>
   fst (otPlatRadioTransmit ndebug s') = Returned kThreadError_None \<and>
   nd_calls (dev (snd (otPlatRadioTransmit ndebug s'))) =
     nd_calls (dev s) @
       [Drv_set NETOPT_CHANNEL (Val_u16 (ucast (mChannel (sTransmitFrame s)))),
        Drv_set NETOPT_TX_POWER (Val_i16 (scast (mPower (sTransmitFrame s)))),
        Drv_send [\<lparr>iov_base = mPsdu (sTransmitFrame s),
                   iov_len = unat (mLength (sTransmitFrame s))\<rparr>]]"
  by (simp add: otPlatRadioTransmit_def is_rx_def is_tx_def get_state_def Let_def
      set_channel_def set_power_def driver_set_def driver_send_def split: prod.splits)

theorem transmit_returns_none_witness:
  "get_state (test_radio NETOPT_STATE_IDLE 0) \<noteq> NETOPT_STATE_RX \<and>
   get_state (test_radio NETOPT_STATE_IDLE 0) \<noteq> NETOPT_STATE_TX \<and>
   fst (otPlatRadioTransmit False
     ((test_radio NETOPT_STATE_IDLE 0)
        \<lparr>dev := (dev (test_radio NETOPT_STATE_IDLE 0))
           \<lparr>nd_set_res := (\<lambda>_. - 1), nd_send_res := - 1\<rparr>\<rparr>))
     = Returned kThreadError_None"
proof -
  have rx: "get_state (test_radio NETOPT_STATE_IDLE 0) \<noteq> NETOPT_STATE_RX"
    and tx: "get_state (test_radio NETOPT_STATE_IDLE 0) \<noteq> NETOPT_STATE_TX"
    by (simp_all add: get_state_test_radio)
  show ?thesis
    using rx tx
      transmit_returns_none [where ndebug = False and set_res = "\<lambda>_. - 1" and send_res = "- 1",
        OF rx tx refl]
    by simp
qed

subsection \<open>Transmit completion\<close>

text \<open>
  C2. For each of the four transmit completion events, the handler makes exactly one upcall
  \<open>otPlatRadioTransmitDone\<close> with the address of the outbound frame and the pair of
  pending flag and result of the event: TxComplete gives (false, None),
  TxCompletePendingData gives (true, None), TxNoAck gives (false, NoAck) and TxMediumBusy
  gives (false, ChannelAccessFailure). Nothing else of the state changes.
\<close>

theorem sent_pkt_mapping:
  "sent_pkt NETDEV2_EVENT_TX_COMPLETE s =
     s\<lparr>upcalls := upcalls s @
       [otPlatRadioTransmitDone (Some Ref_sTransmitFrame) False kThreadError_None]\<rparr> \<and>
   sent_pkt NETDEV2_EVENT_TX_COMPLETE_DATA_PENDING s =
     s\<lparr>upcalls := upcalls s @
       [otPlatRadioTransmitDone (Some Ref_sTransmitFrame) True kThreadError_None]\<rparr> \<and>
   sent_pkt NETDEV2_EVENT_TX_NOACK s =
     s\<lparr>upcalls := upcalls s @
       [otPlatRadioTransmitDone (Some Ref_sTransmitFrame) False kThreadError_NoAck]\<rparr> \<and>
   sent_pkt NETDEV2_EVENT_TX_MEDIUM_BUSY s =
     s\<lparr>upcalls := upcalls s @
       [otPlatRadioTransmitDone (Some Ref_sTransmitFrame) False
          kThreadError_ChannelAccessFailure]\<rparr>"
  by simp

subsection \<open>Receive completion\<close>

lemma sint_cases32: "sint (w :: 32 word) = uint w \<or> sint w = uint w - 2 ^ 32"
proof -
  have "take_bit 32 (uint w) = uint w"
    using uint_bounded [of w] by (simp add: take_bit_int_eq_self)
  then show ?thesis
    by (simp add: sint_uint signed_take_bit_eq_take_bit_minus [of 31 "uint w"])
qed



text \<open>A negative length, an error code of the driver, takes the same branch as a length
  above the maximum.\<close>

lemma negative_len: "sint (w :: 32 word) < 0 \<Longrightarrow> UINT16_MAX < w"
  using sint_cases32 [of w] uint_bounded [of w] sint_ge [of w]
  by (auto simp: UINT16_MAX_def word_less_def)




text \<open>The read keeps the size of the receive buffer.\<close>

lemma recv_pkt_buffer_size:
  "recv_pkt s = Inr s' \<Longrightarrow> length (mPsdu (sReceiveFrame s')) = length (mPsdu (sReceiveFrame s))"
  by (auto simp: recv_pkt_def driver_recv_def get_power_def Let_def
      split: if_splits sum.splits prod.splits)





subsection \<open>Enable, Disable and Sleep\<close>

text \<open>
  C4, as amended. Enable always returns \<open>kThreadError_None\<close>. In every state in which the
  device is busy (transmitting or receiving) it is a no-op that leaves the state unchanged.
  In every other state, the active states Sleep and idle Receive among them, it hands the
  state \<open>NETOPT_STATE_SLEEP\<close> to the device, which is then in that state if it accepts
  the \<open>set\<close>.
\<close>

theorem enable_noop_only_when_busy:
  "fst (otPlatRadioEnable s) = kThreadError_None \<and>
   (is_busy s \<longrightarrow> snd (otPlatRadioEnable s) = s) \<and>
   (\<not> is_busy s \<longrightarrow>
      nd_calls (dev (snd (otPlatRadioEnable s))) =
        nd_calls (dev s) @ [Drv_set NETOPT_STATE (Val_state NETOPT_STATE_SLEEP)] \<and>
      (0 \<le> sint (nd_set_res (dev s) NETOPT_STATE) \<longrightarrow>
         get_state (snd (otPlatRadioEnable s)) = NETOPT_STATE_SLEEP))"
  by (simp add: otPlatRadioEnable_def get_state_set_state nd_calls_set_state)

theorem enable_noop_only_when_busy_witness:
  "is_busy (test_radio NETOPT_STATE_RX 0) \<and>
   otPlatRadioEnable (test_radio NETOPT_STATE_RX 0) =
     (kThreadError_None, test_radio NETOPT_STATE_RX 0) \<and>
   \<not> is_busy (test_radio NETOPT_STATE_OFF 0) \<and>
   0 \<le> sint (nd_set_res (dev (test_radio NETOPT_STATE_OFF 0)) NETOPT_STATE) \<and>
   fst (otPlatRadioEnable (test_radio NETOPT_STATE_OFF 0)) = kThreadError_None \<and>
   get_state (snd (otPlatRadioEnable (test_radio NETOPT_STATE_OFF 0))) = NETOPT_STATE_SLEEP"
proof -
  have b: "is_busy (test_radio NETOPT_STATE_RX 0)"
    and n: "\<not> is_busy (test_radio NETOPT_STATE_OFF 0)"
    by (simp_all add: is_busy_def get_state_test_radio)
  have a: "0 \<le> sint (nd_set_res (dev (test_radio NETOPT_STATE_OFF 0)) NETOPT_STATE)"
    by (simp add: test_defs)
  show ?thesis
    using b n a enable_noop_only_when_busy [of "test_radio NETOPT_STATE_RX 0"]
      enable_noop_only_when_busy [of "test_radio NETOPT_STATE_OFF 0"]
    by (simp add: prod_eq_iff)
qed

text \<open>
  The claim as stated fails in the state \<open>NETOPT_STATE_IDLE\<close>: the radio is active (it
  is listening), Enable returns \<open>kThreadError_None\<close>, and the device is put to
  \<open>NETOPT_STATE_SLEEP\<close>.
\<close>

theorem enable_active_idle_counterexample:
  "otPlatRadioIsEnabled (test_radio NETOPT_STATE_IDLE 0) \<and>
   get_state (test_radio NETOPT_STATE_IDLE 0) = NETOPT_STATE_IDLE \<and>
   fst (otPlatRadioEnable (test_radio NETOPT_STATE_IDLE 0)) = kThreadError_None \<and>
   get_state (snd (otPlatRadioEnable (test_radio NETOPT_STATE_IDLE 0))) = NETOPT_STATE_SLEEP \<and>
   snd (otPlatRadioEnable (test_radio NETOPT_STATE_IDLE 0)) \<noteq> test_radio NETOPT_STATE_IDLE 0"
  by (simp add: otPlatRadioIsEnabled_def otPlatRadioEnable_def is_busy_def get_state_def
      set_state_def driver_set_def test_defs)

text \<open>
  C5. When the device is not busy, Sleep returns \<open>kThreadError_None\<close> and hands the device
  first the state \<open>NETOPT_STATE_SLEEP\<close> and then the state \<open>NETOPT_STATE_OFF\<close>, so a
  device that accepts the \<open>set\<close> is in the state \<open>NETOPT_STATE_OFF\<close> (Disabled) in the
  end. When the device is busy, Sleep returns \<open>kThreadError_Busy\<close> and changes nothing.
\<close>

theorem sleep_then_disable:
  "(\<not> is_busy s \<longrightarrow>
      fst (otPlatRadioSleep s) = kThreadError_None \<and>
      nd_calls (dev (snd (otPlatRadioSleep s))) =
        nd_calls (dev s) @ [Drv_set NETOPT_STATE (Val_state NETOPT_STATE_SLEEP),
                            Drv_set NETOPT_STATE (Val_state NETOPT_STATE_OFF)] \<and>
      (0 \<le> sint (nd_set_res (dev s) NETOPT_STATE) \<longrightarrow>
         get_state (snd (otPlatRadioSleep s)) = NETOPT_STATE_OFF)) \<and>
   (is_busy s \<longrightarrow> otPlatRadioSleep s = (kThreadError_Busy, s))"
proof -
  have busy: "is_busy s \<Longrightarrow> otPlatRadioSleep s = (kThreadError_Busy, s)"
    by (simp add: otPlatRadioSleep_def)
  have idle: "\<not> is_busy (set_state NETOPT_STATE_SLEEP s)" if "\<not> is_busy s"
  proof (cases "0 \<le> sint (nd_set_res (dev s) NETOPT_STATE)")
    case True
    then show ?thesis by (simp add: is_busy_def get_state_set_state)
  next
    case False
    with that show ?thesis by (simp add: is_busy_def get_state_set_state_rejected)
  qed
  have run: "otPlatRadioSleep s =
      (kThreadError_None, set_state NETOPT_STATE_OFF (set_state NETOPT_STATE_SLEEP s))"
    if "\<not> is_busy s"
    using that idle by (simp add: otPlatRadioSleep_def otPlatRadioDisable_def)
  show ?thesis
    using busy run
    by (auto simp: nd_calls_set_state get_state_set_state nd_set_res_set_state)
qed

theorem sleep_then_disable_witness:
  "\<not> is_busy (test_radio NETOPT_STATE_IDLE 0) \<and>
   0 \<le> sint (nd_set_res (dev (test_radio NETOPT_STATE_IDLE 0)) NETOPT_STATE) \<and>
   fst (otPlatRadioSleep (test_radio NETOPT_STATE_IDLE 0)) = kThreadError_None \<and>
   get_state (snd (otPlatRadioSleep (test_radio NETOPT_STATE_IDLE 0))) = NETOPT_STATE_OFF \<and>
   is_busy (test_radio NETOPT_STATE_TX 0) \<and>
   otPlatRadioSleep (test_radio NETOPT_STATE_TX 0) =
     (kThreadError_Busy, test_radio NETOPT_STATE_TX 0)"
proof -
  have n: "\<not> is_busy (test_radio NETOPT_STATE_IDLE 0)"
    and b: "is_busy (test_radio NETOPT_STATE_TX 0)"
    by (simp_all add: is_busy_def get_state_test_radio)
  have a: "0 \<le> sint (nd_set_res (dev (test_radio NETOPT_STATE_IDLE 0)) NETOPT_STATE)"
    by (simp add: test_defs)
  show ?thesis
    using n b a sleep_then_disable [of "test_radio NETOPT_STATE_IDLE 0"]
      sleep_then_disable [of "test_radio NETOPT_STATE_TX 0"]
    by simp
qed

section \<open>Properties of the address accessors\<close>

subsection \<open>Extended address\<close>

text \<open>The loop from index \<open>i\<close> on keeps the bytes below \<open>i\<close> and writes the others.\<close>

lemma reverse_from_eq:
  "i \<le> IEEE802154_LONG_ADDRESS_LEN \<Longrightarrow> length dst = IEEE802154_LONG_ADDRESS_LEN \<Longrightarrow>
   reverse_from i a dst =
     take i dst @
     map (\<lambda>k. a ! (IEEE802154_LONG_ADDRESS_LEN - 1 - k)) [i..<IEEE802154_LONG_ADDRESS_LEN]"
proof (induction i a dst rule: reverse_from.induct)
  case (1 i a dst)
  show ?case
  proof (cases "i < IEEE802154_LONG_ADDRESS_LEN")
    case True
    let ?v = "a ! (IEEE802154_LONG_ADDRESS_LEN - 1 - i)"
    have "reverse_from i a dst = reverse_from (i + 1) a (dst[i := ?v])"
      using True by (subst reverse_from.simps) simp
    also have "\<dots> = take (i + 1) (dst[i := ?v]) @
        map (\<lambda>k. a ! (IEEE802154_LONG_ADDRESS_LEN - 1 - k)) [i + 1..<IEEE802154_LONG_ADDRESS_LEN]"
      using True "1.prems" by (intro "1.IH") simp_all
    also have "take (i + 1) (dst[i := ?v]) = take i dst @ [?v]"
      using True "1.prems" by (simp add: take_Suc_conv_app_nth)
    finally show ?thesis
      using True by (simp add: upt_conv_Cons)
  next
    case False
    with "1.prems" have "i = IEEE802154_LONG_ADDRESS_LEN" by simp
    then show ?thesis
      using "1.prems" by (subst reverse_from.simps) simp
  qed
qed

lemma reverse_from_start:
  "reverse_from 0 a (replicate IEEE802154_LONG_ADDRESS_LEN 0) =
     map (\<lambda>k. a ! (IEEE802154_LONG_ADDRESS_LEN - 1 - k)) [0..<IEEE802154_LONG_ADDRESS_LEN]"
  by (subst reverse_from_eq) simp_all

lemma map_nth_rev:
  "length a = IEEE802154_LONG_ADDRESS_LEN \<Longrightarrow>
   map (\<lambda>k. a ! (IEEE802154_LONG_ADDRESS_LEN - 1 - k)) [0..<IEEE802154_LONG_ADDRESS_LEN] = rev a"
  by (rule nth_equalityI) (simp_all add: rev_nth)

lemma reverse_from_rev:
  "length a = IEEE802154_LONG_ADDRESS_LEN \<Longrightarrow>
   reverse_from 0 a (replicate IEEE802154_LONG_ADDRESS_LEN 0) = rev a"
  by (simp only: reverse_from_start map_nth_rev)

lemma set_extended_address_eq:
  assumes "length a = 8"
  shows "otPlatRadioSetExtendedAddress a s = snd (set_long_addr (rev a) s)"
proof -
  have "length a = IEEE802154_LONG_ADDRESS_LEN"
    using assms by (simp add: IEEE802154_LONG_ADDRESS_LEN_def)
  then have "reverse_from 0 a (replicate IEEE802154_LONG_ADDRESS_LEN 0) = rev a"
    by (rule reverse_from_rev)
  then show ?thesis
    by (simp add: otPlatRadioSetExtendedAddress_def)
qed

lemma set_extended_address_calls:
  "length a = 8 \<Longrightarrow>
   nd_calls (dev (otPlatRadioSetExtendedAddress a s)) =
     nd_calls (dev s) @ [Drv_set NETOPT_ADDRESS_LONG (Val_bytes (rev a))]"
  by (simp add: set_extended_address_eq set_long_addr_def driver_set_def Let_def)

lemma get_after_set_extended_address:
  "length a = 8 \<Longrightarrow> 0 \<le> sint (nd_set_res (dev s) NETOPT_ADDRESS_LONG) \<Longrightarrow>
   otPlatRadioGetIeeeEui64 (otPlatRadioSetExtendedAddress a s) = rev a"
  by (simp add: set_extended_address_eq set_long_addr_def driver_set_def Let_def
      otPlatRadioGetIeeeEui64_def get_long_addr_def)

text \<open>
  C8, as amended. For every extended address of eight bytes, the set accessor hands the
  device the bytes of the address in reverse order; and on a device that stores what it is
  handed and hands it back, the get accessor then returns these stored bytes as they are,
  that is the address in reverse order (the get accessor does not reverse).
\<close>

theorem set_extended_address_reversed:
  "length a = 8 \<Longrightarrow>
   nd_calls (dev (otPlatRadioSetExtendedAddress a s)) =
     nd_calls (dev s) @ [Drv_set NETOPT_ADDRESS_LONG (Val_bytes (rev a))] \<and>
   (0 \<le> sint (nd_set_res (dev s) NETOPT_ADDRESS_LONG) \<longrightarrow>
      otPlatRadioGetIeeeEui64 (otPlatRadioSetExtendedAddress a s) = rev a)"
  by (simp add: set_extended_address_calls get_after_set_extended_address)

theorem set_extended_address_reversed_witness:
  "length [1, 2, 3, 4, 5, 6, 7, 8 :: 8 word] = 8 \<and>
   0 \<le> sint (nd_set_res (dev (test_radio NETOPT_STATE_IDLE 0)) NETOPT_ADDRESS_LONG) \<and>
   nd_calls (dev (otPlatRadioSetExtendedAddress [1, 2, 3, 4, 5, 6, 7, 8]
      (test_radio NETOPT_STATE_IDLE 0))) =
     [Drv_set NETOPT_ADDRESS_LONG (Val_bytes [8, 7, 6, 5, 4, 3, 2, 1])] \<and>
   otPlatRadioGetIeeeEui64 (otPlatRadioSetExtendedAddress [1, 2, 3, 4, 5, 6, 7, 8]
      (test_radio NETOPT_STATE_IDLE 0)) = [8, 7, 6, 5, 4, 3, 2, 1]"
proof -
  have l: "length [1, 2, 3, 4, 5, 6, 7, 8 :: 8 word] = 8" by simp
  have a: "0 \<le> sint (nd_set_res (dev (test_radio NETOPT_STATE_IDLE 0)) NETOPT_ADDRESS_LONG)"
    and c: "nd_calls (dev (test_radio NETOPT_STATE_IDLE 0)) = []"
    by (simp_all add: test_defs)
  show ?thesis
    using l a c set_extended_address_reversed [OF l, of "test_radio NETOPT_STATE_IDLE 0"]
    by simp
qed

text \<open>
  The round trip of the claim as stated fails: after the address 1, 2, ..., 8 is set on a
  device that stores it, the get accessor returns 8, 7, ..., 1.
\<close>

theorem extended_address_round_trip_counterexample:
  "otPlatRadioGetIeeeEui64 (otPlatRadioSetExtendedAddress [1, 2, 3, 4, 5, 6, 7, 8]
      (test_radio NETOPT_STATE_IDLE 0)) = [8, 7, 6, 5, 4, 3, 2, 1] \<and>
   otPlatRadioGetIeeeEui64 (otPlatRadioSetExtendedAddress [1, 2, 3, 4, 5, 6, 7, 8]
      (test_radio NETOPT_STATE_IDLE 0)) \<noteq> [1, 2, 3, 4, 5, 6, 7, 8]"
proof -
  have "0 \<le> sint (nd_set_res (dev (test_radio NETOPT_STATE_IDLE 0)) NETOPT_ADDRESS_LONG)"
    by (simp add: test_defs)
  then have "otPlatRadioGetIeeeEui64 (otPlatRadioSetExtendedAddress [1, 2, 3, 4, 5, 6, 7, 8]
      (test_radio NETOPT_STATE_IDLE 0)) = rev [1, 2, 3, 4, 5, 6, 7, 8]"
    by (intro get_after_set_extended_address) simp_all
  then show ?thesis by simp
qed

subsection \<open>PAN id and short address\<close>

lemma swap_bytes_take_bit:
  "swap_bytes x =
     word_of_int (push_bit 8 (take_bit 8 (uint x)) OR take_bit 8 (drop_bit 8 (uint x)))"
proof -
  have "(255 :: int) = mask 8" by (simp add: mask_eq_exp_minus_1)
  then show ?thesis by (simp add: swap_bytes_def take_bit_eq_mask)
qed

text \<open>The low byte of the result is the high byte of the operand, and the other way round.\<close>

lemma swap_bytes_low: "ucast (swap_bytes x) = (ucast (drop_bit 8 x) :: 8 word)"
  unfolding swap_bytes_take_bit
  by (rule bit_word_eqI) (auto simp: bit_simps dest: bit_imp_le_length)

lemma swap_bytes_high: "ucast (drop_bit 8 (swap_bytes x)) = (ucast x :: 8 word)"
  unfolding swap_bytes_take_bit
  by (rule bit_word_eqI) (auto simp: bit_simps dest: bit_imp_le_length)

lemma swap_bytes_cat:
  "swap_bytes x = word_cat (ucast x :: 8 word) (ucast (drop_bit 8 x) :: 8 word)"
  unfolding swap_bytes_take_bit
  by (rule bit_word_eqI) (auto simp: bit_simps dest: bit_imp_le_length)

text \<open>
  C9. For every 16-bit PAN id \<open>p\<close> and every 16-bit short address \<open>a\<close>, the one call the
  set operation makes on the device is a \<open>set\<close> of \<open>NETOPT_NID\<close>, respectively of
  \<open>NETOPT_ADDRESS\<close>, with the 16-bit value whose high byte is the low byte of the input
  and whose low byte is the high byte of the input.
\<close>

theorem set_panid_short_address_swapped:
  "nd_calls (dev (otPlatRadioSetPanId p s)) =
     nd_calls (dev s) @
       [Drv_set NETOPT_NID
          (Val_u16 (word_cat (ucast p :: 8 word) (ucast (drop_bit 8 p) :: 8 word)))] \<and>
   nd_calls (dev (otPlatRadioSetShortAddress a s)) =
     nd_calls (dev s) @
       [Drv_set NETOPT_ADDRESS
          (Val_u16 (word_cat (ucast a :: 8 word) (ucast (drop_bit 8 a) :: 8 word)))]"
  by (simp add: otPlatRadioSetPanId_def otPlatRadioSetShortAddress_def set_panid_def
      set_addr_def driver_set_def Let_def swap_bytes_cat)

text \<open>On the PAN id 0x1234 the device is handed 0x3412.\<close>

lemma set_panid_example:
  "nd_calls (dev (otPlatRadioSetPanId 0x1234 (test_radio NETOPT_STATE_IDLE 0))) =
     [Drv_set NETOPT_NID (Val_u16 0x3412)]"
  by (simp add: otPlatRadioSetPanId_def set_panid_def driver_set_def Let_def swap_bytes_def
      test_defs)

section \<open>Properties of the alarm\<close>

lemma start_at_zero:
  "otPlatAlarmMilliStartAt aT0 0 s =
     s\<lparr>ot_alarm_msg := (ot_alarm_msg s)\<lparr>msg_type := OPENTHREAD_XTIMER_MSG_TYPE_EVENT\<rparr>,
       mbox := mbox s @ [(ot_alarm_msg s)\<lparr>msg_type := OPENTHREAD_XTIMER_MSG_TYPE_EVENT\<rparr>]\<rparr>"
  by (simp add: otPlatAlarmMilliStartAt_def msg_send_def)

lemma start_at_nonzero:
  "aDt \<noteq> 0 \<Longrightarrow>
   otPlatAlarmMilliStartAt aT0 aDt s =
     s\<lparr>ot_alarm_msg := (ot_alarm_msg s)\<lparr>msg_type := OPENTHREAD_XTIMER_MSG_TYPE_EVENT\<rparr>,
       ot_timer := Some (now_usec s + unat (aDt * US_PER_MS))\<rparr>"
  by (simp add: otPlatAlarmMilliStartAt_def xtimer_set_msg_def)

text \<open>The reference time has no influence on what a call does.\<close>

lemma start_at_any_reference:
  "otPlatAlarmMilliStartAt aT0 aDt s = otPlatAlarmMilliStartAt aT0' aDt s"
  by (simp add: otPlatAlarmMilliStartAt_def)

text \<open>
  With the delay zero the notification is in the queue when the call returns, and the timer
  is neither armed nor disarmed.
\<close>

lemma start_at_zero_synchronous:
  "mbox (otPlatAlarmMilliStartAt aT0 0 s) =
     mbox s @ [\<lparr>msg_type = OPENTHREAD_XTIMER_MSG_TYPE_EVENT\<rparr>] \<and>
   ot_timer (otPlatAlarmMilliStartAt aT0 0 s) = ot_timer s"
  by (simp add: start_at_zero)

text \<open>
  C6. The clock stands at 100 ms. A call with the reference time 90 ms and the delay 20 ms
  arms the timer for 120 ms, which is 20 ms from now, and not for 90 + 20 = 110 ms; a call
  with the reference time 100 ms arms it for the same 120 ms.
\<close>

theorem start_at_reference_time_unused:
  "otPlatAlarmMilliGetNow (test_alarm 100000) = 100 \<and>
   ot_timer (otPlatAlarmMilliStartAt 90 20 (test_alarm 100000)) = Some 120000 \<and>
   ot_timer (otPlatAlarmMilliStartAt 100 20 (test_alarm 100000)) = Some 120000 \<and>
   ot_timer (otPlatAlarmMilliStartAt 90 20 (test_alarm 100000)) \<noteq> Some 110000"
  by (simp add: otPlatAlarmMilliGetNow_def otPlatAlarmMilliStartAt_def xtimer_set_msg_def
      test_alarm_def US_PER_MS_def)

subsection \<open>One timer, and what it delivers\<close>

text \<open>
  However time passes, the messages delivered and the armed timer together grow by nothing:
  an armed timer delivers at most one message and is then disarmed.
\<close>

lemma mbox_elapse:
  "length (mbox (xtimer_elapse t s)) + (if ot_timer (xtimer_elapse t s) = None then 0 else 1)
     \<le> length (mbox s) + (if ot_timer s = None then 0 else 1)"
  by (simp add: xtimer_elapse_def msg_send_def Let_def split: option.splits)

lemma mbox_elapse_all:
  "length (mbox (xtimer_elapse_all ts s)) +
     (if ot_timer (xtimer_elapse_all ts s) = None then 0 else 1)
     \<le> length (mbox s) + (if ot_timer s = None then 0 else 1)"
proof (induction ts arbitrary: s)
  case Nil
  show ?case by simp
next
  case (Cons t ts)
  from Cons.IH [of "xtimer_elapse t s"] mbox_elapse [of t s]
  show ?case by simp
qed

lemma stop_unarmed: "ot_timer s = None \<Longrightarrow> otPlatAlarmMilliStop s = s"
  by (simp add: otPlatAlarmMilliStop_def xtimer_remove_def)

text \<open>
  C7, as amended. For every call of \<^verbatim>\<open>start_at\<close> with a delay that is not zero, whatever the
  timer was armed for before, the timer is afterwards armed for the new deadline only (now
  plus the delay in microseconds, modulo \<open>2 ^ 32\<close>), no notification is enqueued by the
  call, and however time passes afterwards at most one notification is delivered: an alarm
  that was pending before the call does not fire in addition. And stop with no timer armed
  changes nothing.
\<close>

theorem start_at_nonzero_replaces_timer:
  "(aDt \<noteq> 0 \<longrightarrow>
      ot_timer (otPlatAlarmMilliStartAt aT0 aDt s) = Some (now_usec s + unat (aDt * US_PER_MS)) \<and>
      mbox (otPlatAlarmMilliStartAt aT0 aDt s) = mbox s \<and>
      length (mbox (xtimer_elapse_all ts (otPlatAlarmMilliStartAt aT0 aDt s)))
        \<le> length (mbox s) + 1) \<and>
   (ot_timer s = None \<longrightarrow> otPlatAlarmMilliStop s = s)"
proof -
  have "length (mbox (xtimer_elapse_all ts (otPlatAlarmMilliStartAt aT0 aDt s)))
      \<le> length (mbox s) + 1" if "aDt \<noteq> 0"
    using mbox_elapse_all [of ts "otPlatAlarmMilliStartAt aT0 aDt s"] that
    by (simp add: start_at_nonzero split: if_splits)
  then show ?thesis
    by (simp add: start_at_nonzero stop_unarmed)
qed

theorem start_at_nonzero_replaces_timer_witness:
  "(5 :: 32 word) \<noteq> 0 \<and>
   ot_timer (otPlatAlarmMilliStartAt 0 100 (test_alarm 0)) = Some 100000 \<and>
   ot_timer (otPlatAlarmMilliStartAt 0 5 (otPlatAlarmMilliStartAt 0 100 (test_alarm 0)))
     = Some 5000 \<and>
   length (mbox (xtimer_elapse_all [5000, 95000]
      (otPlatAlarmMilliStartAt 0 5 (otPlatAlarmMilliStartAt 0 100 (test_alarm 0))))) \<le> 1 \<and>
   ot_timer (test_alarm 0) = None \<and>
   otPlatAlarmMilliStop (test_alarm 0) = test_alarm 0"
proof -
  have a: "ot_timer (otPlatAlarmMilliStartAt 0 100 (test_alarm 0)) = Some 100000"
    by (simp add: otPlatAlarmMilliStartAt_def xtimer_set_msg_def test_alarm_def US_PER_MS_def)
  have n: "now_usec (otPlatAlarmMilliStartAt 0 100 (test_alarm 0)) = 0"
    and m: "mbox (otPlatAlarmMilliStartAt 0 100 (test_alarm 0)) = []"
    by (simp_all add: otPlatAlarmMilliStartAt_def xtimer_set_msg_def test_alarm_def US_PER_MS_def)
  have u: "ot_timer (test_alarm 0) = None" by (simp add: test_alarm_def)
  show ?thesis
    using a n m u
      start_at_nonzero_replaces_timer [of 5 0 "otPlatAlarmMilliStartAt 0 100 (test_alarm 0)"
        "[5000, 95000]"]
      start_at_nonzero_replaces_timer [of 5 0 "test_alarm 0" "[]"]
    by (simp add: US_PER_MS_def)
qed

text \<open>
  The claim as stated fails for the delay zero. An alarm is started with the delay 100 ms;
  while it is pending, a second one is started with the delay zero. The second call enqueues
  its notification and leaves the timer armed for the first deadline, and when that deadline
  is reached the first alarm fires as well: two notifications are delivered.
\<close>

theorem start_at_zero_keeps_timer_counterexample:
  "ot_timer (otPlatAlarmMilliStartAt 0 100 (test_alarm 0)) = Some 100000 \<and>
   ot_timer (otPlatAlarmMilliStartAt 0 0 (otPlatAlarmMilliStartAt 0 100 (test_alarm 0)))
     = Some 100000 \<and>
   length (mbox (otPlatAlarmMilliStartAt 0 0 (otPlatAlarmMilliStartAt 0 100 (test_alarm 0)))) = 1 \<and>
   length (mbox (xtimer_elapse 100000
      (otPlatAlarmMilliStartAt 0 0 (otPlatAlarmMilliStartAt 0 100 (test_alarm 0))))) = 2"
  by (simp add: otPlatAlarmMilliStartAt_def xtimer_set_msg_def msg_send_def xtimer_elapse_def
      test_alarm_def US_PER_MS_def)

end
